theory Spec2Isabelle
  imports Complex_Main "HOL-Library.Word"
begin

unbundle bit_operations_syntax

section \<open>Large preimage upload of the op-challenger\<close>

text \<open>
  The development follows \<^verbatim>\<open>op-challenger/game/fault/preimages/large.go\<close> (the
  \<^verbatim>\<open>LargePreimageUploader\<close>) and the tests of the \<^verbatim>\<open>types\<close> package
  (\<^verbatim>\<open>TestPreimageOracleData_LeafCount\<close>, \<^verbatim>\<open>TestPreimageOracleData_GetKeccakLeaf\<close>,
  \<^verbatim>\<open>TestNewPreimageOracleData\<close>, \<^verbatim>\<open>TestIsRootPosition\<close>). Go byte slices are
  lists of 8-bit words, \<^verbatim>\<open>uint32\<close> and \<^verbatim>\<open>uint64\<close> are words, \<^verbatim>\<open>*big.Int\<close>
  is \<open>int\<close>.
\<close>

type_synonym byte = "8 word"
type_synonym uint32 = "32 word"
type_synonym uint64 = "64 word"
type_synonym Hash = "256 word"

subsection \<open>The types package: PreimageOracleData\<close>

text \<open>
  The struct as the tests and \<^verbatim>\<open>large.go\<close> use it: the fields \<^verbatim>\<open>IsLocal\<close>,
  \<^verbatim>\<open>OracleKey\<close>, \<^verbatim>\<open>OracleData\<close> and \<^verbatim>\<open>OracleOffset\<close> (a \<^verbatim>\<open>uint32\<close>).
\<close>

record PreimageOracleData =
  IsLocal :: bool
  OracleKey :: "byte list"
  OracleData :: "byte list"
  OracleOffset :: uint32

text \<open>
  Modelled from the spec: the constant \<^verbatim>\<open>types.LibKeccakBlockSizeBytes\<close> is declared in
  \<^verbatim>\<open>types.go\<close>, which is not among the sources. The spec fixes the block size at 136
  bytes, and the tests compare blocks of \<^verbatim>\<open>make([]byte, 136)\<close> with blocks of
  \<^verbatim>\<open>LibKeccakBlockSizeBytes\<close> bytes.
\<close>

definition LibKeccakBlockSizeBytes :: nat where
  "LibKeccakBlockSizeBytes = 136"


text \<open>
  Modelled from the spec: \<^verbatim>\<open>NewPreimageOracleData\<close> is defined in \<^verbatim>\<open>types.go\<close>,
  which is not among the sources. The arguments are stored as the spec says. The
  classification is the one the repository's test \<^verbatim>\<open>TestNewPreimageOracleData\<close>
  requires, which is not the one of the spec's invariant: the key \<^verbatim>\<open>{1, 2, 3}\<close> is local
  and the key \<^verbatim>\<open>{0, 2, 3}\<close> is not. So the leading type-tag byte of a local key is 1 and
  not 0. No test decides the empty key, which the tests construct data from as well: it is
  local, as in the spec's invariant.
\<close>

definition NewPreimageOracleData :: "byte list \<Rightarrow> byte list \<Rightarrow> uint32 \<Rightarrow> PreimageOracleData" where
  "NewPreimageOracleData key data offset =
     \<lparr>IsLocal = (case key of [] \<Rightarrow> True | k # _ \<Rightarrow> k = 1),
      OracleKey = key, OracleData = data, OracleOffset = offset\<rparr>"

text \<open>
  Modelled from the spec: \<^verbatim>\<open>LeafCount\<close> is defined in \<^verbatim>\<open>types.go\<close>, which is not among
  the sources. The spec gives \<open>ceil(len(OracleData) / 136)\<close>, derived and never stored;
  here it is computed on the naturals by rounding the division up.
\<close>

definition LeafCount :: "PreimageOracleData \<Rightarrow> nat" where
  "LeafCount p =
     (length (OracleData p) + (LibKeccakBlockSizeBytes - 1)) div LibKeccakBlockSizeBytes"

text \<open>
  Modelled from the spec: part of \<^verbatim>\<open>GetKeccakLeaf\<close>, whose source is not among the
  sources. The bytes of \<^verbatim>\<open>OracleData\<close> that fall into block \<open>leafIndex\<close>: the Go slice
  \<^verbatim>\<open>OracleData[start:end]\<close> with \<open>start = leafIndex * 136\<close> and
  \<open>end = min(len(OracleData), start + 136)\<close>.
\<close>

definition leafRange :: "PreimageOracleData \<Rightarrow> nat \<Rightarrow> byte list" where
  "leafRange p leafIndex =
     (let start = leafIndex * LibKeccakBlockSizeBytes;
          end = min (length (OracleData p)) (start + LibKeccakBlockSizeBytes)
      in take (end - start) (drop start (OracleData p)))"

text \<open>
  Modelled from the spec: \<^verbatim>\<open>GetKeccakLeaf\<close> is defined in \<^verbatim>\<open>types.go\<close>, which is not
  among the sources. This is the function in the spec's words: an index at or beyond
  \<open>LeafCount\<close> gives the all-zero block; otherwise the in-range bytes are copied to the
  start of the block and the remainder is zero-filled.
\<close>

definition GetKeccakLeaf_spec :: "PreimageOracleData \<Rightarrow> uint32 \<Rightarrow> byte list" where
  "GetKeccakLeaf_spec p leafIndex =
     (if unat leafIndex \<ge> LeafCount p then replicate LibKeccakBlockSizeBytes 0
      else leafRange p (unat leafIndex)
           @ replicate (LibKeccakBlockSizeBytes - length (leafRange p (unat leafIndex))) 0)"

text \<open>
  Modelled from the spec: \<^verbatim>\<open>GetKeccakLeaf\<close> is defined in \<^verbatim>\<open>types.go\<close>, which is not
  among the sources. The out-of-range case and the full block are the spec's. The partial
  block is the one the repository's test \<^verbatim>\<open>TestPreimageOracleData_GetKeccakLeaf\<close>
  (case \<^verbatim>\<open>MultiBlockDataWithPartialBlock\<close>) requires, which is not the spec's: the
  in-range bytes stand at the end of the block and the zero bytes before them.
\<close>

definition GetKeccakLeaf :: "PreimageOracleData \<Rightarrow> uint32 \<Rightarrow> byte list" where
  "GetKeccakLeaf p leafIndex =
     (if unat leafIndex \<ge> LeafCount p then replicate LibKeccakBlockSizeBytes 0
      else replicate (LibKeccakBlockSizeBytes - length (leafRange p (unat leafIndex))) 0
           @ leafRange p (unat leafIndex))"

subsection \<open>The tests of the types package\<close>

text \<open>
  Each test of the repository is a table of cases and one assertion per case. The tests
  take the functions they exercise as arguments, so that they can be run on every model of
  the missing \<^verbatim>\<open>types.go\<close>.
\<close>

definition TestPreimageOracleData_LeafCount :: "(PreimageOracleData \<Rightarrow> nat) \<Rightarrow> bool" where
  "TestPreimageOracleData_LeafCount leafCount =
     list_all (\<lambda>(data, expected). leafCount data = expected)
       [(NewPreimageOracleData [] [] 0, 0),
        (NewPreimageOracleData [] (replicate 136 0) 0, 1),
        (NewPreimageOracleData [] (replicate (136 * 2) 0) 0, 2),
        (NewPreimageOracleData [] (replicate (136 * 2 + 1) 0) 0, 3)]"

definition fullBlock :: "byte list" where
  "fullBlock = map of_nat [0..<136]"

definition TestPreimageOracleData_GetKeccakLeaf ::
    "(PreimageOracleData \<Rightarrow> uint32 \<Rightarrow> byte list) \<Rightarrow> bool" where
  "TestPreimageOracleData_GetKeccakLeaf getKeccakLeaf =
     list_all (\<lambda>(data, offset, expected). getKeccakLeaf data offset = expected)
       [(NewPreimageOracleData [] fullBlock 0, 0, fullBlock),
        (NewPreimageOracleData [] (fullBlock @ fullBlock) 0, 1, fullBlock),
        (NewPreimageOracleData [] (fullBlock @ [9]) 0, 1,
           replicate (LibKeccakBlockSizeBytes - 1) 0 @ [9]),
        (NewPreimageOracleData [] (fullBlock @ [9]) 0, 2,
           replicate LibKeccakBlockSizeBytes 0)]"

definition TestNewPreimageOracleData ::
    "(byte list \<Rightarrow> byte list \<Rightarrow> uint32 \<Rightarrow> PreimageOracleData) \<Rightarrow> bool" where
  "TestNewPreimageOracleData new =
     ((let data = new [1, 2, 3] [4, 5, 6] 7
       in IsLocal data \<and> OracleKey data = [1, 2, 3] \<and> OracleData data = [4, 5, 6]
          \<and> OracleOffset data = 7)
      \<and> (let data = new [0, 2, 3] [4, 5, 6] 7
         in \<not> IsLocal data \<and> OracleKey data = [0, 2, 3] \<and> OracleData data = [4, 5, 6]
            \<and> OracleOffset data = 7))"

subsection \<open>The types package: Position\<close>

text \<open>
  Modelled from the spec: \<^verbatim>\<open>Position\<close>, \<^verbatim>\<open>NewPositionFromGIndex\<close> and
  \<^verbatim>\<open>IsRootPosition\<close> are defined in the \<^verbatim>\<open>types\<close> package, in a file that is not among
  the sources. In the spec a position wraps one non-negative arbitrary-precision integer,
  the generalized index; constructing one from a negative integer fails fast (\<open>None\<close>
  here); \<^verbatim>\<open>IsRootPosition\<close> holds iff the integer is 0 or 1.
\<close>

datatype Position = Position (gindex: int)

text \<open>
  Modelled from the spec: \<^verbatim>\<open>NewPositionFromGIndex\<close> is not among the sources. A
  non-negative generalized index is wrapped; a negative one fails fast.
\<close>

definition NewPositionFromGIndex :: "int \<Rightarrow> Position option" where
  "NewPositionFromGIndex x = (if x < 0 then None else Some (Position x))"

text \<open>
  Modelled from the spec: \<^verbatim>\<open>IsRootPosition\<close> is not among the sources. It holds iff the
  wrapped integer is 0 or 1.
\<close>

definition IsRootPosition :: "Position \<Rightarrow> bool" where
  "IsRootPosition p = (gindex p = 0 \<or> gindex p = 1)"

definition TestIsRootPosition ::
    "(int \<Rightarrow> Position option) \<Rightarrow> (Position \<Rightarrow> bool) \<Rightarrow> bool" where
  "TestIsRootPosition new isRoot =
     list_all (\<lambda>(position, expected). map_option isRoot position = Some expected)
       [(new 0, True), (new 1, True), (new 2, False)]"

subsection \<open>Errors, results and effects\<close>

text \<open>
  A Go \<^verbatim>\<open>error\<close> value: the sentinel of \<^verbatim>\<open>large.go\<close>, the two sentinels \<^verbatim>\<open>io.EOF\<close> and
  \<^verbatim>\<open>io.ErrUnexpectedEOF\<close> of Go's \<^verbatim>\<open>io\<close> package, any other error handed over by a
  collaborator (the entropy source, the contract binding, the transaction manager), and
  the two shapes of \<^verbatim>\<open>fmt.Errorf\<close> in \<^verbatim>\<open>large.go\<close>: \<^verbatim>\<open>"<text>: %w"\<close> and
  \<^verbatim>\<open>"<text>: %s: %w"\<close> with the UUID. A function that returns \<^verbatim>\<open>error\<close> returns
  \<open>error option\<close>, \<open>None\<close> being \<^verbatim>\<open>nil\<close>; one that returns a value and an error returns
  \<open>error + 'a\<close>.
\<close>

datatype error =
    errNotSupported
  | io_EOF
  | io_ErrUnexpectedEOF
  | External string
  | Errorf string error
  | ErrorfUUID string int error

text \<open>A call either returns or panics; a call that does not terminate has no outcome.\<close>

datatype 'a outcome = Return 'a | Panic

datatype log_level = LvlTrace | LvlDebug | LvlInfo | LvlWarn | LvlError | LvlCrit

record Receipt =
  Status :: uint64
  TxHash :: Hash

definition ReceiptStatusFailed :: uint64 where
  "ReceiptStatusFailed = 0"

definition ReceiptStatusSuccessful :: uint64 where
  "ReceiptStatusSuccessful = 1"

record Leaf =
  Input :: "byte list"
  Index :: int
  StateCommitment :: Hash

text \<open>
  What the uploader does to the outside, in the order it does it: the calls of the contract
  binding, the transactions handed to the transaction manager and the lines it logs. The
  type \<open>'c\<close> is \<^verbatim>\<open>txmgr.TxCandidate\<close>.
\<close>

datatype 'c event =
    CallInitLargePreimage int uint32 uint32
  | CallAddLeaves int "Leaf list" bool
  | CallSend 'c
  | Log log_level string Hash

record 'c world =
  sends :: nat
  events :: "'c event list"

text \<open>
  The collaborators of \<^verbatim>\<open>LargePreimageUploader\<close>. The contract binding is called at most
  once per method in an upload, so its answer is a function of the arguments; the
  transaction manager is called once per candidate, and its answer may depend on how many
  transactions it was sent before. The logger only receives lines, which are recorded in
  the events.
\<close>

record 'c LargePreimageUploader =
  txMgr_Send :: "nat \<Rightarrow> 'c \<Rightarrow> error + Receipt"
  contract_InitLargePreimage :: "int \<Rightarrow> uint32 \<Rightarrow> uint32 \<Rightarrow> error + 'c"
  contract_AddLeaves :: "int \<Rightarrow> Leaf list \<Rightarrow> bool \<Rightarrow> error + 'c list"

text \<open>
  The keccak state matrix of the \<^verbatim>\<open>matrix\<close> package is an opaque sequential primitive:
  a fresh state, the absorption of a block (with the flag of the last block) and the
  commitment to the current state.
\<close>

record 'm StateMatrix =
  NewStateMatrix :: 'm
  AbsorbLeaf :: "'m \<Rightarrow> byte list \<Rightarrow> bool \<Rightarrow> 'm"
  matrix_StateCommitment :: "'m \<Rightarrow> Hash"

subsection \<open>The entropy source and rand.Int\<close>

text \<open>
  \<^verbatim>\<open>rand.Reader\<close> is a stream of bytes that may fail: position \<open>i\<close> holds the byte the
  source delivers there, or the error it fails with. \<^verbatim>\<open>io.ReadFull\<close> reads \<open>k\<close> bytes from
  a position, or returns the first error it meets; when that error is \<^verbatim>\<open>io.EOF\<close> and some
  bytes were read before it, the error returned is \<^verbatim>\<open>io.ErrUnexpectedEOF\<close>.
\<close>

type_synonym reader = "nat \<Rightarrow> error + byte"

fun ReadFull :: "reader \<Rightarrow> nat \<Rightarrow> nat \<Rightarrow> error + byte list" where
  "ReadFull r pos 0 = Inr []"
| "ReadFull r pos (Suc k) =
     (case r pos of
        Inl err \<Rightarrow> Inl err
      | Inr b \<Rightarrow>
          (case ReadFull r (Suc pos) k of
             Inl err \<Rightarrow> Inl (if err = io_EOF then io_ErrUnexpectedEOF else err)
           | Inr bs \<Rightarrow> Inr (b # bs)))"

text \<open>\<^verbatim>\<open>big.Int.BitLen\<close> of a non-negative integer, and \<^verbatim>\<open>big.Int.SetBytes\<close> (big-endian).\<close>

fun BitLen :: "nat \<Rightarrow> nat" where
  "BitLen n = (if n = 0 then 0 else Suc (BitLen (n div 2)))"

definition SetBytes :: "byte list \<Rightarrow> int" where
  "SetBytes bytes = foldl (\<lambda>acc b. acc * 256 + uint b) 0 bytes"

text \<open>\<^verbatim>\<open>bytes[0] &= uint8(int(1<<b) - 1)\<close>\<close>

definition clearTopBits :: "nat \<Rightarrow> byte list \<Rightarrow> byte list" where
  "clearTopBits b bytes =
     (case bytes of [] \<Rightarrow> [] | x # xs \<Rightarrow> (x AND of_nat (2 ^ b - 1)) # xs)"

text \<open>
  \<^verbatim>\<open>rand.Int\<close> of Go's \<^verbatim>\<open>crypto/rand\<close>, which \<^verbatim>\<open>newUUID\<close> calls: it panics when
  \<open>max \<le> 0\<close>, and otherwise draws candidates of the bit length of \<open>max - 1\<close> until one is
  below \<open>max\<close>. The loop has no bound: on a source whose candidates are all rejected it does
  not return, which is the value \<open>None\<close>.
\<close>

partial_function (option) rand_Int_loop ::
    "reader \<Rightarrow> int \<Rightarrow> nat \<Rightarrow> nat \<Rightarrow> nat \<Rightarrow> (error + int) option" where
  "rand_Int_loop r max' k b pos =
     (case ReadFull r pos k of
        Inl err \<Rightarrow> Some (Inl err)
      | Inr bytes \<Rightarrow>
          if SetBytes (clearTopBits b bytes) < max'
          then Some (Inr (SetBytes (clearTopBits b bytes)))
          else rand_Int_loop r max' k b (pos + k))"

definition rand_Int :: "reader \<Rightarrow> int \<Rightarrow> (error + int) outcome option" where
  "rand_Int r max' =
     (if max' \<le> 0 then Some Panic
      else let bitLen = BitLen (nat (max' - 1)) in
        if bitLen = 0 then Some (Return (Inr 0))
        else let k = (bitLen + 7) div 8;
                 b = (if bitLen mod 8 = 0 then 8 else bitLen mod 8)
             in map_option Return (rand_Int_loop r max' k b 0))"

subsection \<open>large.go\<close>

definition newUUID :: "reader \<Rightarrow> (error + int) outcome option" where
  "newUUID r = rand_Int r (2 ^ 130 - 1)"

definition sendTxAndWait ::
    "'c LargePreimageUploader \<Rightarrow> 'c \<Rightarrow> 'c world \<Rightarrow> error option \<times> 'c world" where
  "sendTxAndWait p candidate w =
     (let w1 = w\<lparr>sends := Suc (sends w), events := events w @ [CallSend candidate]\<rparr> in
      case txMgr_Send p (sends w) candidate of
        Inl err \<Rightarrow> (Some err, w1)
      | Inr receipt \<Rightarrow>
          if Status receipt = ReceiptStatusFailed
          then (None, w1\<lparr>events := events w1 @
                  [Log LvlError ''LargePreimageUploader tx successfully published but reverted''
                     (TxHash receipt)]\<rparr>)
          else (None, w1\<lparr>events := events w1 @
                  [Log LvlDebug ''LargePreimageUploader tx successfully published''
                     (TxHash receipt)]\<rparr>))"

definition initLargePreimage ::
    "'c LargePreimageUploader \<Rightarrow> int \<Rightarrow> uint32 \<Rightarrow> uint32 \<Rightarrow> 'c world \<Rightarrow> error option \<times> 'c world" where
  "initLargePreimage p uuid partOffset claimedSize w =
     (let w1 = w\<lparr>events := events w @ [CallInitLargePreimage uuid partOffset claimedSize]\<rparr> in
      case contract_InitLargePreimage p uuid partOffset claimedSize of
        Inl err \<Rightarrow> (Some (Errorf ''failed to create pre-image oracle tx'' err), w1)
      | Inr candidate \<Rightarrow>
          (case sendTxAndWait p candidate w1 of
             (Some err, w2) \<Rightarrow> (Some (Errorf ''failed to populate pre-image oracle'' err), w2)
           | (None, w2) \<Rightarrow> (None, w2)))"

text \<open>The loop over the candidates in \<^verbatim>\<open>addLargePreimageLeafs\<close>.\<close>

fun sendCandidates ::
    "'c LargePreimageUploader \<Rightarrow> 'c list \<Rightarrow> 'c world \<Rightarrow> error option \<times> 'c world" where
  "sendCandidates p [] w = (None, w)"
| "sendCandidates p (candidate # candidates) w =
     (case sendTxAndWait p candidate w of
        (Some err, w1) \<Rightarrow> (Some (Errorf ''failed to populate pre-image oracle'' err), w1)
      | (None, w1) \<Rightarrow> sendCandidates p candidates w1)"

definition addLargePreimageLeafs ::
    "'c LargePreimageUploader \<Rightarrow> int \<Rightarrow> Leaf list \<Rightarrow> bool \<Rightarrow> 'c world \<Rightarrow> error option \<times> 'c world" where
  "addLargePreimageLeafs p uuid leaves finalize w =
     (let w1 = w\<lparr>events := events w @ [CallAddLeaves uuid leaves finalize]\<rparr> in
      case contract_AddLeaves p uuid leaves finalize of
        Inl err \<Rightarrow> (Some (Errorf ''failed to create pre-image oracle tx'' err), w1)
      | Inr candidates \<Rightarrow> sendCandidates p candidates w1)"

text \<open>
  The conversion \<^verbatim>\<open>([types.LibKeccakBlockSizeBytes]byte)(leaf)\<close> of a slice to an array:
  it panics on a slice that is too short and keeps the first 136 bytes otherwise.
\<close>

definition toBlock :: "byte list \<Rightarrow> byte list outcome" where
  "toBlock leaf =
     (if length leaf < LibKeccakBlockSizeBytes then Panic
      else Return (take LibKeccakBlockSizeBytes leaf))"

text \<open>
  The loop of \<^verbatim>\<open>UploadPreimage\<close> that runs the preimage through the keccak permutation,
  from index \<open>i\<close> on, with the state matrix and the leaves built so far.
\<close>

function buildLeafs ::
    "'m StateMatrix \<Rightarrow> PreimageOracleData \<Rightarrow> nat \<Rightarrow> 'm \<Rightarrow> Leaf list \<Rightarrow> Leaf list outcome" where
  "buildLeafs mx data i stateMatrix leafs =
     (if int i < int (LeafCount data)
      then
        (let leaf = GetKeccakLeaf data (of_nat i);
             stateMatrix1 = AbsorbLeaf mx stateMatrix leaf (int i = int (LeafCount data) - 1);
             statCommitment = matrix_StateCommitment mx stateMatrix1
         in case toBlock leaf of
              Panic \<Rightarrow> Panic
            | Return input \<Rightarrow>
                buildLeafs mx data (Suc i) stateMatrix1
                  (leafs @ [\<lparr>Input = input, Index = int i, StateCommitment = statCommitment\<rparr>]))
      else Return leafs)"
  by pat_completeness auto
termination
  by (relation "measure (\<lambda>(mx, data, i, stateMatrix, leafs). LeafCount data - i)") auto

declare buildLeafs.simps [simp del]

definition UploadPreimage ::
    "'c LargePreimageUploader \<Rightarrow> 'm StateMatrix \<Rightarrow> reader \<Rightarrow> uint64 \<Rightarrow> PreimageOracleData
      \<Rightarrow> (error option outcome \<times> 'c world) option" where
  "UploadPreimage p mx rd parent data =
     (let w0 = \<lparr>sends = 0, events = []\<rparr> in
      case buildLeafs mx data 0 (NewStateMatrix mx) [] of
        Panic \<Rightarrow> Some (Panic, w0)
      | Return leafs \<Rightarrow>
          (case newUUID rd of
             None \<Rightarrow> None
           | Some Panic \<Rightarrow> Some (Panic, w0)
           | Some (Return (Inl err)) \<Rightarrow>
               Some (Return (Some (Errorf ''failed to generate UUID'' err)), w0)
           | Some (Return (Inr uuid)) \<Rightarrow>
               (case initLargePreimage p uuid (OracleOffset data)
                       (of_nat (length (OracleData data))) w0 of
                  (Some err, w1) \<Rightarrow>
                    Some (Return (Some (ErrorfUUID
                      ''failed to initialize large preimage with uuid'' uuid err)), w1)
                | (None, w1) \<Rightarrow>
                    (case addLargePreimageLeafs p uuid leafs False w1 of
                       (Some err, w2) \<Rightarrow>
                         Some (Return (Some (ErrorfUUID
                           ''failed to add leaves to large preimage with uuid'' uuid err)), w2)
                     | (None, w2) \<Rightarrow> Some (Return (Some errNotSupported), w2)))))"

subsection \<open>Inputs of the concrete runs\<close>

text \<open>
  A source that delivers the bytes of a list and is then at its end, and the big-endian bytes of
  an integer; collaborators that confirm every transaction, that publish transactions
  that revert, that fail to broadcast, and that fail to build the leaf transactions; a state
  matrix that counts the absorbed blocks.
\<close>

definition readerOf :: "byte list \<Rightarrow> reader" where
  "readerOf bs = (\<lambda>i. if i < length bs then Inr (bs ! i) else Inl (io_EOF))"

fun bigEndian :: "nat \<Rightarrow> int \<Rightarrow> byte list" where
  "bigEndian 0 v = []"
| "bigEndian (Suc n) v = word_of_int (v div 256 ^ n) # bigEndian n v"

definition okUploader :: "nat LargePreimageUploader" where
  "okUploader =
     \<lparr>txMgr_Send = (\<lambda>n candidate. Inr \<lparr>Status = ReceiptStatusSuccessful, TxHash = of_nat candidate\<rparr>),
      contract_InitLargePreimage = (\<lambda>uuid partOffset claimedSize. Inr 0),
      contract_AddLeaves = (\<lambda>uuid leaves finalize. Inr [1, 2])\<rparr>"

definition revertingUploader :: "nat LargePreimageUploader" where
  "revertingUploader =
     \<lparr>txMgr_Send = (\<lambda>n candidate. Inr \<lparr>Status = ReceiptStatusFailed, TxHash = of_nat candidate\<rparr>),
      contract_InitLargePreimage = (\<lambda>uuid partOffset claimedSize. Inr 0),
      contract_AddLeaves = (\<lambda>uuid leaves finalize. Inr [1, 2])\<rparr>"

definition failingUploader :: "nat LargePreimageUploader" where
  "failingUploader =
     \<lparr>txMgr_Send = (\<lambda>n candidate. Inl (External ''failed to broadcast'')),
      contract_InitLargePreimage = (\<lambda>uuid partOffset claimedSize. Inr 0),
      contract_AddLeaves = (\<lambda>uuid leaves finalize. Inr [1, 2])\<rparr>"

definition addLeavesFailingUploader :: "nat LargePreimageUploader" where
  "addLeavesFailingUploader =
     \<lparr>txMgr_Send = (\<lambda>n candidate. Inr \<lparr>Status = ReceiptStatusSuccessful, TxHash = of_nat candidate\<rparr>),
      contract_InitLargePreimage = (\<lambda>uuid partOffset claimedSize. Inr 0),
      contract_AddLeaves = (\<lambda>uuid leaves finalize. Inl (External ''failed to add leaves''))\<rparr>"

definition countingMatrix :: "nat StateMatrix" where
  "countingMatrix =
     \<lparr>NewStateMatrix = 0,
      AbsorbLeaf = (\<lambda>s leaf final. Suc s),
      matrix_StateCommitment = (\<lambda>s. of_nat s)\<rparr>"

section \<open>The models of the types package pass the repository's tests\<close>

lemma GetKeccakLeaf_test: "TestPreimageOracleData_GetKeccakLeaf GetKeccakLeaf"
  by (simp add: TestPreimageOracleData_GetKeccakLeaf_def GetKeccakLeaf_def LeafCount_def
      NewPreimageOracleData_def LibKeccakBlockSizeBytes_def leafRange_def fullBlock_def)

lemma NewPreimageOracleData_test: "TestNewPreimageOracleData NewPreimageOracleData"
  by (simp add: TestNewPreimageOracleData_def NewPreimageOracleData_def)

lemma IsRootPosition_test: "TestIsRootPosition NewPositionFromGIndex IsRootPosition"
  by (simp add: TestIsRootPosition_def NewPositionFromGIndex_def IsRootPosition_def)

text \<open>The constructor and the block function in the spec's words fail the same tests.\<close>

lemma left_aligned_neq_right_aligned:
  "9 # replicate 135 (0::byte) \<noteq> replicate 135 0 @ [9]"
proof
  assume "9 # replicate 135 (0::byte) = replicate 135 0 @ [9]"
  then have "hd (9 # replicate 135 (0::byte)) = hd (replicate 135 0 @ [9])"
    by (rule arg_cong)
  then show False by (simp add: hd_append)
qed

lemma GetKeccakLeaf_spec_test: "\<not> TestPreimageOracleData_GetKeccakLeaf GetKeccakLeaf_spec"
  by (simp add: TestPreimageOracleData_GetKeccakLeaf_def GetKeccakLeaf_spec_def LeafCount_def
      NewPreimageOracleData_def LibKeccakBlockSizeBytes_def leafRange_def fullBlock_def
      left_aligned_neq_right_aligned)


section \<open>Blocks of a preimage\<close>

lemma ceiling_div_136: "int ((n + 135) div 136) = \<lceil>real n / 136\<rceil>"
proof -
  have "\<lceil>real n / 136\<rceil> = \<lceil>real_of_int (int n) / real_of_int 136\<rceil>"
    by simp
  also have "\<dots> = - (- int n div 136)"
    by (rule ceiling_divide_eq_div)
  also have "\<dots> = int ((n + 135) div 136)"
    by (simp add: zdiv_int)
  finally show ?thesis by simp
qed

lemma length_leafRange: "length (leafRange p i) \<le> LibKeccakBlockSizeBytes"
  by (simp add: leafRange_def Let_def)

lemma length_GetKeccakLeaf: "length (GetKeccakLeaf p i) = LibKeccakBlockSizeBytes"
  using length_leafRange [of p "unat i"] by (simp add: GetKeccakLeaf_def)

text \<open>
  C7. For every byte sequence, \<open>LeafCount\<close> is the ceiling of its length divided by 136;
  the four cases of \<^verbatim>\<open>TestPreimageOracleData_LeafCount\<close> (0, 136, 272 and 273 bytes give
  0, 1, 2 and 3 leaves) hold.
\<close>

theorem LeafCount_ceiling:
  "int (LeafCount (NewPreimageOracleData key D offset)) = \<lceil>real (length D) / 136\<rceil>
   \<and> TestPreimageOracleData_LeafCount LeafCount"
proof
  show "int (LeafCount (NewPreimageOracleData key D offset)) = \<lceil>real (length D) / 136\<rceil>"
    by (simp add: LeafCount_def NewPreimageOracleData_def LibKeccakBlockSizeBytes_def
        ceiling_div_136)
  show "TestPreimageOracleData_LeafCount LeafCount"
    by (simp add: TestPreimageOracleData_LeafCount_def LeafCount_def
        NewPreimageOracleData_def LibKeccakBlockSizeBytes_def)
qed

text \<open>
  C8. For every preimage and every index at or beyond \<open>LeafCount\<close>, \<open>GetKeccakLeaf\<close>
  returns the block of 136 zero bytes; it is a total function and has no error result.
\<close>

theorem GetKeccakLeaf_beyond_LeafCount:
  "LeafCount p \<le> unat i \<Longrightarrow> GetKeccakLeaf p i = replicate 136 0"
  by (simp add: GetKeccakLeaf_def LibKeccakBlockSizeBytes_def)

theorem GetKeccakLeaf_beyond_LeafCount_witness:
  "LeafCount (NewPreimageOracleData [] (fullBlock @ [9]) 0) \<le> unat (2 :: uint32)
   \<and> GetKeccakLeaf (NewPreimageOracleData [] (fullBlock @ [9]) 0) 2 = replicate 136 0"
proof -
  have h: "LeafCount (NewPreimageOracleData [] (fullBlock @ [9]) 0) \<le> unat (2 :: uint32)"
    by (simp add: LeafCount_def NewPreimageOracleData_def LibKeccakBlockSizeBytes_def
        fullBlock_def)
  show ?thesis
    using h GetKeccakLeaf_beyond_LeafCount [OF h] by simp
qed

text \<open>
  C2, as the claim states it, fails on the repository's test: the second block of 137
  bytes (index 1, below the leaf count 2) holds the one in-range byte at its end, not at
  its start, and the function in the spec's words fails the test.
\<close>

theorem GetKeccakLeaf_left_aligned_counterexample:
  "unat (1 :: uint32) < LeafCount (NewPreimageOracleData [] (fullBlock @ [9]) 0)
   \<and> GetKeccakLeaf (NewPreimageOracleData [] (fullBlock @ [9]) 0) 1 = replicate 135 0 @ [9]
   \<and> GetKeccakLeaf (NewPreimageOracleData [] (fullBlock @ [9]) 0) 1 \<noteq> 9 # replicate 135 0
   \<and> \<not> TestPreimageOracleData_GetKeccakLeaf GetKeccakLeaf_spec"
proof -
  have "GetKeccakLeaf (NewPreimageOracleData [] (fullBlock @ [9]) 0) 1 = replicate 135 0 @ [9]"
    by (simp add: GetKeccakLeaf_def LeafCount_def NewPreimageOracleData_def
        LibKeccakBlockSizeBytes_def leafRange_def fullBlock_def)
  moreover have "unat (1 :: uint32) < LeafCount (NewPreimageOracleData [] (fullBlock @ [9]) 0)"
    by (simp add: LeafCount_def NewPreimageOracleData_def LibKeccakBlockSizeBytes_def
        fullBlock_def)
  ultimately show ?thesis
    using left_aligned_neq_right_aligned GetKeccakLeaf_spec_test by simp
qed

text \<open>
  C2, amended. For every preimage with data \<open>D\<close> and every index \<open>i\<close> below \<open>LeafCount\<close>,
  \<open>GetKeccakLeaf\<close> returns a block of 136 bytes that ends with
  \<open>D[i * 136 : min(len(D), i * 136 + 136)]\<close>, all bytes before it being zero; a range that
  lies within the data is copied as it is.
\<close>

theorem GetKeccakLeaf_in_range:
  assumes "unat i < LeafCount p"
  shows "length (GetKeccakLeaf p i) = 136
    \<and> GetKeccakLeaf p i =
        replicate (136 - (min (length (OracleData p)) (unat i * 136 + 136) - unat i * 136)) 0
        @ take (min (length (OracleData p)) (unat i * 136 + 136) - unat i * 136)
            (drop (unat i * 136) (OracleData p))
    \<and> (unat i * 136 + 136 \<le> length (OracleData p)
        \<longrightarrow> GetKeccakLeaf p i = take 136 (drop (unat i * 136) (OracleData p)))"
proof -
  have start: "unat i * 136 < length (OracleData p)"
    using assms by (simp add: LeafCount_def LibKeccakBlockSizeBytes_def)
  have len: "length (GetKeccakLeaf p i) = 136"
    by (simp add: length_GetKeccakLeaf LibKeccakBlockSizeBytes_def)
  have block: "GetKeccakLeaf p i =
        replicate (136 - (min (length (OracleData p)) (unat i * 136 + 136) - unat i * 136)) 0
        @ take (min (length (OracleData p)) (unat i * 136 + 136) - unat i * 136)
            (drop (unat i * 136) (OracleData p))"
    using assms start
    by (simp add: GetKeccakLeaf_def leafRange_def LibKeccakBlockSizeBytes_def Let_def min_def)
  have full: "GetKeccakLeaf p i = take 136 (drop (unat i * 136) (OracleData p))"
    if "unat i * 136 + 136 \<le> length (OracleData p)"
    using that by (simp add: block min_def)
  from len block full show ?thesis by blast
qed

theorem GetKeccakLeaf_in_range_witness:
  "unat (1 :: uint32) < LeafCount (NewPreimageOracleData [] (fullBlock @ [9]) 0)
   \<and> length (GetKeccakLeaf (NewPreimageOracleData [] (fullBlock @ [9]) 0) 1) = 136
   \<and> GetKeccakLeaf (NewPreimageOracleData [] (fullBlock @ [9]) 0) 1 = replicate 135 0 @ [9]"
proof -
  have h: "unat (1 :: uint32) < LeafCount (NewPreimageOracleData [] (fullBlock @ [9]) 0)"
    by (simp add: LeafCount_def NewPreimageOracleData_def LibKeccakBlockSizeBytes_def
        fullBlock_def)
  show ?thesis
    using h GetKeccakLeaf_in_range [OF h]
    by (simp add: NewPreimageOracleData_def fullBlock_def)
qed

section \<open>Local and global keys\<close>



section \<open>Positions\<close>

text \<open>
  C9. For every non-negative generalized index \<open>g\<close> the position is constructed, and it is
  the root position if and only if \<open>g\<close> is 0 or 1; so it is not for any \<open>g \<ge> 2\<close>.
\<close>

theorem IsRootPosition_iff:
  "0 \<le> g \<Longrightarrow>
     \<exists>p. NewPositionFromGIndex g = Some p \<and> (IsRootPosition p \<longleftrightarrow> g = 0 \<or> g = 1)"
  by (simp add: NewPositionFromGIndex_def IsRootPosition_def)

theorem IsRootPosition_iff_witness:
  "(0::int) \<le> 2
   \<and> (\<exists>p. NewPositionFromGIndex 2 = Some p \<and> \<not> IsRootPosition p)"
proof -
  have h: "(0::int) \<le> 2" by simp
  show ?thesis using h IsRootPosition_iff [OF h] by simp
qed

section \<open>The UUID of an upload\<close>

subsection \<open>Bit lengths and big-endian bytes\<close>

lemma SetBytes_foldl_nonneg: "0 \<le> acc \<Longrightarrow> 0 \<le> foldl (\<lambda>acc b. acc * 256 + uint (b::byte)) acc bs"
  by (induction bs arbitrary: acc) simp_all

lemma SetBytes_nonneg: "0 \<le> SetBytes bs"
  by (simp add: SetBytes_def SetBytes_foldl_nonneg)

lemma rand_Int_loop_result:
  assumes "rand_Int_loop r m k b pos = Some res"
  shows "case res of Inl err \<Rightarrow> True | Inr v \<Rightarrow> 0 \<le> v \<and> v < m"
proof (rule rand_Int_loop.raw_induct
    [where P = "\<lambda>r m k b pos res. case res of Inl err \<Rightarrow> True | Inr v \<Rightarrow> 0 \<le> v \<and> v < m", OF _ assms])
  fix loop r m k b pos res
  assume IH: "\<And>r m k b pos res. loop r m k b pos = Some res \<Longrightarrow>
      (case res of Inl err \<Rightarrow> True | Inr v \<Rightarrow> 0 \<le> v \<and> v < m)"
    and step: "(case ReadFull r pos k of
        Inl err \<Rightarrow> Some (Inl err)
      | Inr bytes \<Rightarrow>
          if SetBytes (clearTopBits b bytes) < m
          then Some (Inr (SetBytes (clearTopBits b bytes)))
          else loop r m k b (pos + k)) = Some res"
  show "case res of Inl err \<Rightarrow> True | Inr v \<Rightarrow> 0 \<le> v \<and> v < m"
  proof (cases "ReadFull r pos k")
    case (Inl err)
    with step show ?thesis by auto
  next
    case (Inr bytes)
    show ?thesis
    proof (cases "SetBytes (clearTopBits b bytes) < m")
      case True
      with step Inr show ?thesis by (auto simp: SetBytes_nonneg)
    next
      case False
      with step Inr have "loop r m k b (pos + k) = Some res" by simp
      then show ?thesis by (rule IH)
    qed
  qed
qed

lemma rand_Int_loop_bound:
  "rand_Int_loop r m k b pos = Some (Inr v) \<Longrightarrow> 0 \<le> v \<and> v < m"
  using rand_Int_loop_result [of r m k b pos "Inr v"] by simp

lemma BitLen_bounds: "0 < n \<Longrightarrow> 2 ^ (BitLen n - 1) \<le> n \<and> n < 2 ^ BitLen n"
proof (induction n rule: BitLen.induct)
  case (1 n)
  show ?case
  proof (cases "n div 2 = 0")
    case True
    with 1 have "n = 1" by auto
    then show ?thesis by simp
  next
    case False
    with 1 have IH: "2 ^ (BitLen (n div 2) - 1) \<le> n div 2 \<and> n div 2 < 2 ^ BitLen (n div 2)" by simp
    from False have "BitLen (n div 2) > 0" by (simp)
    then obtain j where j: "BitLen (n div 2) = Suc j" by (cases "BitLen (n div 2)") auto
    have "BitLen n = Suc (Suc j)" using 1 j by simp
    moreover from IH j have "2 ^ j \<le> n div 2" "n div 2 < 2 ^ Suc j" by simp_all
    ultimately show ?thesis by simp linarith
  qed
qed

lemma BitLen_130: "BitLen (nat (2 ^ 130 - 1 - 1)) = 130"
  by simp

lemma ReadFull_readerOf:
  "pos + k \<le> length bs \<Longrightarrow> ReadFull (readerOf bs) pos k = Inr (take k (drop pos bs))"
proof (induction k arbitrary: pos)
  case 0
  then show ?case by simp
next
  case (Suc k)
  then have "pos < length bs" by simp
  then have "take (Suc k) (drop pos bs) = bs ! pos # take k (drop (Suc pos) bs)"
    by (simp add: Cons_nth_drop_Suc [symmetric])
  with Suc show ?case by (simp add: readerOf_def)
qed

lemma length_bigEndian: "length (bigEndian n v) = n"
  by (induction n) simp_all

lemma foldl_bigEndian:
  "foldl (\<lambda>acc b. acc * 256 + uint (b::byte)) acc (bigEndian n v) = acc * 256 ^ n + v mod 256 ^ n"
proof (induction n arbitrary: acc)
  case 0
  then show ?case by simp
next
  case (Suc n)
  have u: "uint (word_of_int (v div 256 ^ n) :: byte) = (v div 256 ^ n) mod 256"
    by (simp add: uint_word_of_int take_bit_eq_mod)
  have m: "v mod (256 ^ n * 256) = 256 ^ n * (v div 256 ^ n mod 256) + v mod 256 ^ n"
    by (rule zmod_zmult2_eq) simp
  have "foldl (\<lambda>acc b. acc * 256 + uint (b::byte)) acc (bigEndian (Suc n) v)
      = (acc * 256 + (v div 256 ^ n) mod 256) * 256 ^ n + v mod 256 ^ n"
    by (simp only: bigEndian.simps foldl_Cons Suc.IH u)
  also have "\<dots> = acc * 256 ^ Suc n + v mod 256 ^ Suc n"
    using m by (simp add: algebra_simps)
  finally show ?case .
qed

lemma SetBytes_bigEndian: "0 \<le> v \<Longrightarrow> v < 256 ^ n \<Longrightarrow> SetBytes (bigEndian n v) = v"
  by (simp add: SetBytes_def foldl_bigEndian)

lemma and_3_small:
  assumes "0 \<le> q" "q < 4"
  shows "(word_of_int q :: byte) AND 3 = word_of_int q"
proof -
  from assms have "q = 0 \<or> q = 1 \<or> q = 2 \<or> q = 3" by arith
  then show ?thesis by auto
qed

lemma bigEndian_17: "bigEndian 17 v = word_of_int (v div 256 ^ 16) # bigEndian 16 v"
proof -
  have "(17::nat) = Suc 16" by simp
  then show ?thesis by (simp only: bigEndian.simps)
qed

lemma div_less_of_less_mult:
  assumes "0 < P" "v < c * P"
  shows "v div P < (c::int)"
proof -
  have "P * (v div P) = v - v mod P"
    by (simp add: minus_mod_eq_mult_div)
  moreover have "0 \<le> v mod P"
    using assms(1) by simp
  ultimately have "(v div P) * P < c * P"
    using assms(2) by (simp add: mult.commute)
  then show ?thesis
    using assms(1) by (simp add: mult_less_cancel_right)
qed

lemma clearTopBits_bigEndian:
  assumes "0 \<le> v" "v < 2 ^ 130"
  shows "clearTopBits 2 (bigEndian 17 v) = bigEndian 17 v"
proof -
  have "v < 4 * 256 ^ 16" using assms by simp
  then have "v div 256 ^ 16 < 4"
    by (intro div_less_of_less_mult) simp_all
  moreover have "0 \<le> v div 256 ^ 16"
    using assms by (simp add: pos_imp_zdiv_nonneg_iff)
  ultimately have "(word_of_int (v div 256 ^ 16) :: byte) AND 3 = word_of_int (v div 256 ^ 16)"
    by (rule and_3_small [rotated])
  then show ?thesis
    by (simp only: bigEndian_17 clearTopBits_def list.case) simp
qed


lemma newUUID_bigEndian:
  assumes "0 \<le> v" "v < 2 ^ 130 - 1"
  shows "newUUID (readerOf (bigEndian 17 v)) = Some (Return (Inr v))"
proof -
  have read: "ReadFull (readerOf (bigEndian 17 v)) 0 17 = Inr (bigEndian 17 v)"
    using ReadFull_readerOf [of 0 17 "bigEndian 17 v"] by (simp add: length_bigEndian)
  have clear: "clearTopBits 2 (bigEndian 17 v) = bigEndian 17 v"
    using assms by (intro clearTopBits_bigEndian) simp_all
  have val: "SetBytes (bigEndian 17 v) = v"
    using assms by (intro SetBytes_bigEndian) simp_all
  have "rand_Int_loop (readerOf (bigEndian 17 v)) (2 ^ 130 - 1) 17 2 0 = Some (Inr v)"
    using assms by (subst rand_Int_loop.simps) (simp only: read clear val sum.case if_True)
  then show ?thesis
    by (simp add: newUUID_def rand_Int_def)
qed


lemma newUUID_no_panic: "newUUID r \<noteq> Some Panic"
  by (auto simp add: newUUID_def rand_Int_def)

lemma newUUID_bound: "newUUID r = Some (Return (Inr v)) \<Longrightarrow> 0 \<le> v \<and> v < 2 ^ 130 - 1"
  using rand_Int_loop_bound [of r "2 ^ 130 - 1" 17 2 0 v]
  by (auto simp add: newUUID_def rand_Int_def)

lemma replicate_17: "replicate 17 x = [x, x, x, x, x, x, x, x, x, x, x, x, x, x, x, x, x]"
  by (simp add: eval_nat_numeral)

lemma SetBytes_ones: "SetBytes (clearTopBits 2 (replicate 17 255)) = 2 ^ 130 - 1"
  by (simp add: SetBytes_def clearTopBits_def replicate_17)

lemma SetBytes_zeros: "SetBytes (clearTopBits 2 (replicate 17 0)) = 0"
  by (simp add: SetBytes_def clearTopBits_def replicate_17)

lemma newUUID_rejects:
  "newUUID (readerOf (replicate 17 255 @ replicate 17 0)) = Some (Return (Inr 0))"
proof -
  let ?rd = "readerOf (replicate 17 255 @ replicate 17 0)"
  have r1: "ReadFull ?rd 0 17 = Inr (replicate 17 255)"
    using ReadFull_readerOf [of 0 17 "replicate 17 255 @ replicate 17 0"] by simp
  have r2: "ReadFull ?rd 17 17 = Inr (replicate 17 0)"
    using ReadFull_readerOf [of 17 17 "replicate 17 255 @ replicate 17 0"] by simp
  have "rand_Int_loop ?rd (2 ^ 130 - 1) 17 2 (0 + 17) = Some (Inr 0)"
    by (subst rand_Int_loop.simps) (simp add: r2 SetBytes_zeros)
  then have "rand_Int_loop ?rd (2 ^ 130 - 1) 17 2 0 = Some (Inr 0)"
    by (subst rand_Int_loop.simps) (simp only: r1 SetBytes_ones sum.case less_irrefl if_False)
  then show ?thesis
    by (simp add: newUUID_def rand_Int_def)
qed

lemma newUUID_1111: "newUUID (readerOf (bigEndian 17 1111)) = Some (Return (Inr 1111))"
  by (rule newUUID_bigEndian) simp_all

lemma ReadFull_readerOf_Nil: "ReadFull (readerOf []) pos (Suc k) = Inl (io_EOF)"
  by (simp add: readerOf_def)

lemma newUUID_readerOf_Nil: "newUUID (readerOf []) = Some (Return (Inl (io_EOF)))"
proof -
  have "ReadFull (readerOf []) 0 17 = Inl (io_EOF)"
    using ReadFull_readerOf_Nil [of 0 16] by simp
  then have "rand_Int_loop (readerOf []) (2 ^ 130 - 1) 17 2 0 = Some (Inl (io_EOF))"
    by (subst rand_Int_loop.simps) simp
  then show ?thesis
    by (simp add: newUUID_def rand_Int_def)
qed

subsection \<open>The range of newUUID\<close>

text \<open>
  C6, as the claim states it, fails: \<^verbatim>\<open>newUUID\<close> passes \<open>2^130 - 1\<close> to \<^verbatim>\<open>rand.Int\<close>,
  whose results are below its argument, so the value \<open>2^130 - 1\<close> of the claimed domain is
  never produced. On a source whose first 17 bytes are all \<^verbatim>\<open>0xFF\<close> the first candidate
  is \<open>2^130 - 1\<close>; it is rejected and the next candidate is returned.
\<close>

theorem newUUID_full_domain_counterexample:
  "\<not> (\<forall>v. 0 \<le> v \<and> v < 2 ^ 130 \<longrightarrow> (\<exists>r. newUUID r = Some (Return (Inr v))))
   \<and> SetBytes (clearTopBits 2 (replicate 17 255)) = 2 ^ 130 - 1
   \<and> newUUID (readerOf (replicate 17 255 @ replicate 17 0)) = Some (Return (Inr 0))"
proof -
  have "\<not> (\<forall>v. 0 \<le> v \<and> v < 2 ^ 130 \<longrightarrow> (\<exists>r. newUUID r = Some (Return (Inr v))))"
  proof
    assume "\<forall>v. 0 \<le> v \<and> v < 2 ^ 130 \<longrightarrow> (\<exists>r. newUUID r = Some (Return (Inr v)))"
    then have "\<exists>r. newUUID r = Some (Return (Inr (2 ^ 130 - 1)))" by simp
    then obtain r where "newUUID r = Some (Return (Inr (2 ^ 130 - 1)))" ..
    then have "(2 ^ 130 - 1 :: int) < 2 ^ 130 - 1" using newUUID_bound by blast
    then show False by simp
  qed
  then show ?thesis
    using SetBytes_ones newUUID_rejects by simp
qed

text \<open>
  C6, amended. Every UUID that \<^verbatim>\<open>newUUID\<close> returns is a non-negative integer below
  \<open>2^130 - 1\<close> (hence below \<open>2^130\<close>), every integer \<open>v\<close> with \<open>0 \<le> v < 2^130 - 1\<close> is
  returned on some entropy source, and \<^verbatim>\<open>newUUID\<close> does not panic.
\<close>

theorem newUUID_range:
  "(newUUID r = Some (Return (Inr v)) \<longrightarrow> 0 \<le> v \<and> v < 2 ^ 130 - 1)
   \<and> (0 \<le> v \<and> v < 2 ^ 130 - 1 \<longrightarrow> (\<exists>r'. newUUID r' = Some (Return (Inr v))))
   \<and> newUUID r \<noteq> Some Panic"
  using newUUID_bound [of r v] newUUID_bigEndian [of v] newUUID_no_panic [of r] by blast

theorem newUUID_range_witness:
  "newUUID (readerOf (bigEndian 17 1111)) = Some (Return (Inr 1111))
   \<and> (0::int) \<le> 1111 \<and> (1111::int) < 2 ^ 130 - 1
   \<and> (\<exists>r'. newUUID r' = Some (Return (Inr 1111)))"
  using newUUID_range [of "readerOf (bigEndian 17 1111)" 1111] newUUID_1111 by simp

section \<open>The upload\<close>

subsection \<open>The steps of UploadPreimage\<close>

lemma toBlock_GetKeccakLeaf: "toBlock (GetKeccakLeaf data i) = Return (GetKeccakLeaf data i)"
  by (simp add: toBlock_def length_GetKeccakLeaf)

lemma buildLeafs_returns:
  "\<exists>leafs'. buildLeafs mx data i stateMatrix leafs = Return leafs'
      \<and> length leafs' = length leafs + (LeafCount data - i)"
proof (induction mx data i stateMatrix leafs rule: buildLeafs.induct)
  case (1 mx data i stateMatrix leafs)
  show ?case
  proof (cases "i < LeafCount data")
    case True
    then show ?thesis
      using "1.IH" [OF _ refl refl refl, of "GetKeccakLeaf data (of_nat i)"]
      by (subst buildLeafs.simps) (auto simp add: toBlock_GetKeccakLeaf Let_def)
  next
    case False
    then show ?thesis
      by (subst buildLeafs.simps) simp
  qed
qed

lemma sendTxAndWait_receipt:
  "txMgr_Send p (sends w) c = Inr receipt \<Longrightarrow>
     \<exists>w'. sendTxAndWait p c w = (None, w') \<and> sends w' = Suc (sends w)"
  by (simp add: sendTxAndWait_def Let_def)

lemma sendCandidates_receipts:
  "(\<And>j. j < length cs \<Longrightarrow> \<exists>receipt. txMgr_Send p (sends w + j) (cs ! j) = Inr receipt)
    \<Longrightarrow> \<exists>w'. sendCandidates p cs w = (None, w')"
proof (induction cs arbitrary: w)
  case Nil
  then show ?case by simp
next
  case (Cons c cs)
  from Cons.prems [of 0] obtain receipt where "txMgr_Send p (sends w) c = Inr receipt"
    by auto
  from sendTxAndWait_receipt [OF this]
  obtain w1 where w1: "sendTxAndWait p c w = (None, w1)" "sends w1 = Suc (sends w)"
    by auto
  have "\<exists>w'. sendCandidates p cs w1 = (None, w')"
  proof (rule Cons.IH)
    fix j assume "j < length cs"
    then show "\<exists>receipt. txMgr_Send p (sends w1 + j) (cs ! j) = Inr receipt"
      using Cons.prems [of "Suc j"] w1 by simp
  qed
  with w1 show ?case by simp
qed

lemma UploadPreimage_diverges:
  "newUUID rd = None \<Longrightarrow> UploadPreimage p mx rd parent data = None"
  using buildLeafs_returns [of mx data 0 "NewStateMatrix mx" "[]"]
  by (auto simp add: UploadPreimage_def)

lemma UploadPreimage_uuid_error:
  "newUUID rd = Some (Return (Inl err)) \<Longrightarrow>
     UploadPreimage p mx rd parent data =
       Some (Return (Some (Errorf ''failed to generate UUID'' err)), \<lparr>sends = 0, events = []\<rparr>)"
  using buildLeafs_returns [of mx data 0 "NewStateMatrix mx" "[]"]
  by (auto simp add: UploadPreimage_def)

lemma UploadPreimage_uuid:
  assumes "newUUID rd = Some (Return (Inr uuid))"
      and "buildLeafs mx data 0 (NewStateMatrix mx) [] = Return leafs"
  shows "UploadPreimage p mx rd parent data =
     (case initLargePreimage p uuid (OracleOffset data)
             (of_nat (length (OracleData data))) \<lparr>sends = 0, events = []\<rparr> of
        (Some err, w1) \<Rightarrow>
          Some (Return (Some (ErrorfUUID
            ''failed to initialize large preimage with uuid'' uuid err)), w1)
      | (None, w1) \<Rightarrow>
          (case addLargePreimageLeafs p uuid leafs False w1 of
             (Some err, w2) \<Rightarrow>
               Some (Return (Some (ErrorfUUID
                 ''failed to add leaves to large preimage with uuid'' uuid err)), w2)
           | (None, w2) \<Rightarrow> Some (Return (Some errNotSupported), w2)))"
  using assms by (simp add: UploadPreimage_def)

lemma UploadPreimage_returns_iff:
  "UploadPreimage p mx rd parent data = None \<longleftrightarrow> newUUID rd = None"
proof
  assume "UploadPreimage p mx rd parent data = None"
  show "newUUID rd = None"
  proof (rule ccontr)
    assume "newUUID rd \<noteq> None"
    then obtain res where res: "newUUID rd = Some (Return res)"
      using newUUID_no_panic [of rd] by (cases "newUUID rd") (auto intro: outcome.exhaust)
    obtain leafs where leafs: "buildLeafs mx data 0 (NewStateMatrix mx) [] = Return leafs"
      using buildLeafs_returns [of mx data 0 "NewStateMatrix mx" "[]"] by auto
    from res leafs \<open>UploadPreimage p mx rd parent data = None\<close> show False
      by (cases res) (auto simp add: UploadPreimage_uuid_error UploadPreimage_uuid
          split: prod.splits option.splits)
  qed
qed (rule UploadPreimage_diverges)

lemma UploadPreimage_streamed:
  fixes p :: "'c LargePreimageUploader"
  assumes leafs: "buildLeafs mx data 0 (NewStateMatrix mx) [] = Return leafs"
      and uuid: "newUUID rd = Some (Return (Inr uuid))"
      and init: "contract_InitLargePreimage p uuid (OracleOffset data)
                   (of_nat (length (OracleData data))) = Inr candidate"
      and send: "txMgr_Send p 0 candidate = Inr receipt"
      and add: "contract_AddLeaves p uuid leafs False = Inr candidates"
      and sends: "\<And>j. j < length candidates \<Longrightarrow>
                    \<exists>receipt. txMgr_Send p (Suc j) (candidates ! j) = Inr receipt"
  shows "\<exists>w. UploadPreimage p mx rd parent data = Some (Return (Some errNotSupported), w)"
proof -
  let ?w0 = "\<lparr>sends = 0, events = []\<rparr> :: 'c world"
  let ?w1 = "?w0\<lparr>events := events ?w0 @ [CallInitLargePreimage uuid (OracleOffset data)
                   (of_nat (length (OracleData data)))]\<rparr>"
  obtain w2 where w2: "sendTxAndWait p candidate ?w1 = (None, w2)" "sends w2 = Suc 0"
    using sendTxAndWait_receipt [of p ?w1 candidate receipt] send by auto
  have initOk: "initLargePreimage p uuid (OracleOffset data)
      (of_nat (length (OracleData data))) ?w0 = (None, w2)"
    using init w2 by (simp add: initLargePreimage_def Let_def)
  let ?w3 = "w2\<lparr>events := events w2 @ [CallAddLeaves uuid leafs False]\<rparr>"
  have "\<exists>w'. sendCandidates p candidates ?w3 = (None, w')"
    using sends w2 by (intro sendCandidates_receipts) simp
  then obtain w4 where "addLargePreimageLeafs p uuid leafs False w2 = (None, w4)"
    using add by (auto simp add: addLargePreimageLeafs_def Let_def)
  then show ?thesis
    using initOk by (simp add: UploadPreimage_uuid [OF uuid leafs])
qed

subsection \<open>Reverted transactions\<close>

text \<open>
  C5, as the claim states it, fails: the line that \<^verbatim>\<open>sendTxAndWait\<close> logs for a receipt
  with the failed status is logged with \<^verbatim>\<open>p.log.Error\<close>, at the error level and not at
  the warning level.
\<close>

theorem sendTxAndWait_warning_counterexample:
  "sendTxAndWait revertingUploader 7 \<lparr>sends = 0, events = []\<rparr> =
      (None, \<lparr>sends = 1,
              events = [CallSend 7,
                 Log LvlError ''LargePreimageUploader tx successfully published but reverted'' 7]\<rparr>)
   \<and> LvlError \<noteq> LvlWarn"
  by (simp add: sendTxAndWait_def revertingUploader_def Let_def)

text \<open>
  C5, amended. For every transaction candidate whose \<^verbatim>\<open>Send\<close> returns a receipt with
  the failed status, \<^verbatim>\<open>sendTxAndWait\<close> logs the event at the error level and returns no
  error; an upload whose transactions are all published and reverted ends like one whose
  transactions succeed.
\<close>

theorem sendTxAndWait_reverted:
  assumes "txMgr_Send p (sends w) candidate = Inr receipt"
      and "Status receipt = ReceiptStatusFailed"
  shows "sendTxAndWait p candidate w =
      (None, \<lparr>sends = Suc (sends w),
              events = events w @
                [CallSend candidate,
                 Log LvlError ''LargePreimageUploader tx successfully published but reverted''
                   (TxHash receipt)]\<rparr>)"
  using assms by (simp add: sendTxAndWait_def Let_def)

theorem sendTxAndWait_reverted_witness:
  "txMgr_Send revertingUploader 0 7 = Inr \<lparr>Status = ReceiptStatusFailed, TxHash = 7\<rparr>
   \<and> sendTxAndWait revertingUploader 7 \<lparr>sends = 0, events = []\<rparr> =
      (None, \<lparr>sends = 1,
              events = [CallSend 7,
                 Log LvlError ''LargePreimageUploader tx successfully published but reverted'' 7]\<rparr>)
   \<and> (\<exists>w. UploadPreimage revertingUploader countingMatrix (readerOf (bigEndian 17 1111)) 0
             (NewPreimageOracleData [2] (fullBlock @ fullBlock) 0)
           = Some (Return (Some errNotSupported), w))"
proof -
  have h: "txMgr_Send revertingUploader (sends \<lparr>sends = 0, events = []\<rparr>) 7
      = Inr \<lparr>Status = ReceiptStatusFailed, TxHash = 7\<rparr>"
    by (simp add: revertingUploader_def)
  have s: "Status \<lparr>Status = ReceiptStatusFailed, TxHash = 7\<rparr> = ReceiptStatusFailed"
    by simp
  let ?data = "NewPreimageOracleData [2] (fullBlock @ fullBlock) 0"
  obtain leafs where leafs: "buildLeafs countingMatrix ?data 0 (NewStateMatrix countingMatrix) []
      = Return leafs"
    using buildLeafs_returns [of countingMatrix ?data 0 "NewStateMatrix countingMatrix" "[]"]
    by auto
  have run: "\<exists>w. UploadPreimage revertingUploader countingMatrix
               (readerOf (bigEndian 17 1111)) 0 ?data
             = Some (Return (Some errNotSupported), w)"
    by (rule UploadPreimage_streamed [OF leafs newUUID_1111, where candidates = "[1, 2]"])
       (simp_all add: revertingUploader_def)
  show ?thesis
    using h run sendTxAndWait_reverted [OF h s] by simp
qed

subsection \<open>The outcomes of UploadPreimage\<close>

text \<open>
  C3. When UUID generation returns a UUID, the initialization call is built and its
  transaction is sent (\<^verbatim>\<open>Send\<close> returns a receipt), the leaf transactions are built and
  \<^verbatim>\<open>Send\<close> returns a receipt for each of them, \<^verbatim>\<open>UploadPreimage\<close> returns, and it
  returns the error \<^verbatim>\<open>errNotSupported\<close>, not \<^verbatim>\<open>nil\<close>. The leaves always get built, one
  per block.
\<close>

theorem UploadPreimage_not_supported:
  assumes uuid: "newUUID rd = Some (Return (Inr uuid))"
      and init: "contract_InitLargePreimage p uuid (OracleOffset data)
                   (of_nat (length (OracleData data))) = Inr candidate"
      and send: "txMgr_Send p 0 candidate = Inr receipt"
  shows "\<exists>leafs. buildLeafs mx data 0 (NewStateMatrix mx) [] = Return leafs
      \<and> length leafs = LeafCount data
      \<and> (\<forall>candidates.
            contract_AddLeaves p uuid leafs False = Inr candidates
            \<and> (\<forall>j < length candidates.
                  \<exists>receipt. txMgr_Send p (Suc j) (candidates ! j) = Inr receipt)
            \<longrightarrow> (\<exists>w. UploadPreimage p mx rd parent data
                        = Some (Return (Some errNotSupported), w)))"
proof -
  obtain leafs where leafs: "buildLeafs mx data 0 (NewStateMatrix mx) [] = Return leafs"
      "length leafs = LeafCount data"
    using buildLeafs_returns [of mx data 0 "NewStateMatrix mx" "[]"] by auto
  have "\<exists>w. UploadPreimage p mx rd parent data = Some (Return (Some errNotSupported), w)"
    if "contract_AddLeaves p uuid leafs False = Inr candidates"
      and "\<forall>j < length candidates.
             \<exists>receipt. txMgr_Send p (Suc j) (candidates ! j) = Inr receipt"
    for candidates
    using that by (intro UploadPreimage_streamed [OF leafs(1) uuid init send]) auto
  with leafs show ?thesis by blast
qed

theorem UploadPreimage_not_supported_witness:
  "newUUID (readerOf (bigEndian 17 1111)) = Some (Return (Inr 1111))
   \<and> contract_InitLargePreimage okUploader 1111 0 272 = Inr 0
   \<and> txMgr_Send okUploader 0 0 = Inr \<lparr>Status = ReceiptStatusSuccessful, TxHash = 0\<rparr>
   \<and> (\<exists>w. UploadPreimage okUploader countingMatrix (readerOf (bigEndian 17 1111)) 0
             (NewPreimageOracleData [2] (fullBlock @ fullBlock) 0)
           = Some (Return (Some errNotSupported), w))"
proof -
  let ?data = "NewPreimageOracleData [2] (fullBlock @ fullBlock) 0"
  have init: "contract_InitLargePreimage okUploader 1111 (OracleOffset ?data)
      (of_nat (length (OracleData ?data))) = Inr 0"
    by (simp add: okUploader_def)
  have send: "txMgr_Send okUploader 0 0 = Inr \<lparr>Status = ReceiptStatusSuccessful, TxHash = 0\<rparr>"
    by (simp add: okUploader_def)
  from UploadPreimage_not_supported [OF newUUID_1111 init send, of countingMatrix 0]
  obtain leafs where
    "\<forall>candidates.
        contract_AddLeaves okUploader 1111 leafs False = Inr candidates
        \<and> (\<forall>j < length candidates.
              \<exists>receipt. txMgr_Send okUploader (Suc j) (candidates ! j) = Inr receipt)
        \<longrightarrow> (\<exists>w. UploadPreimage okUploader countingMatrix (readerOf (bigEndian 17 1111)) 0 ?data
                    = Some (Return (Some errNotSupported), w))"
    by blast
  then have "\<exists>w. UploadPreimage okUploader countingMatrix (readerOf (bigEndian 17 1111)) 0 ?data
                    = Some (Return (Some errNotSupported), w)"
    by (simp add: okUploader_def)
  then show ?thesis
    using newUUID_1111 send by (simp add: okUploader_def)
qed

text \<open>
  C4. When building the initialization call fails, or \<^verbatim>\<open>Send\<close> returns an error for its
  transaction (a failure to broadcast or to confirm), \<^verbatim>\<open>UploadPreimage\<close> returns the
  error "failed to initialize large preimage" that wraps the failure; \<^verbatim>\<open>AddLeaves\<close> is not
  called, and no transaction is sent but, at most, the one of the initialization call.
\<close>

theorem UploadPreimage_init_failure:
  assumes uuid: "newUUID rd = Some (Return (Inr uuid))"
      and fail: "contract_InitLargePreimage p uuid (OracleOffset data)
                   (of_nat (length (OracleData data))) = Inl err
                 \<or> (\<exists>candidate.
                      contract_InitLargePreimage p uuid (OracleOffset data)
                        (of_nat (length (OracleData data))) = Inr candidate
                      \<and> txMgr_Send p 0 candidate = Inl err)"
  shows "\<exists>e w. UploadPreimage p mx rd parent data =
        Some (Return (Some (ErrorfUUID ''failed to initialize large preimage with uuid'' uuid e)), w)
      \<and> (e = Errorf ''failed to create pre-image oracle tx'' err
          \<or> e = Errorf ''failed to populate pre-image oracle'' err)
      \<and> (\<forall>u leaves finalize. CallAddLeaves u leaves finalize \<notin> set (events w))
      \<and> (\<forall>candidate. CallSend candidate \<in> set (events w) \<longrightarrow>
            contract_InitLargePreimage p uuid (OracleOffset data)
              (of_nat (length (OracleData data))) = Inr candidate)
      \<and> sends w \<le> 1"
proof -
  obtain leafs where leafs: "buildLeafs mx data 0 (NewStateMatrix mx) [] = Return leafs"
    using buildLeafs_returns [of mx data 0 "NewStateMatrix mx" "[]"] by auto
  from fail show ?thesis
  proof
    assume "contract_InitLargePreimage p uuid (OracleOffset data)
                   (of_nat (length (OracleData data))) = Inl err"
    then show ?thesis
      by (simp add: UploadPreimage_uuid [OF uuid leafs] initLargePreimage_def Let_def)
  next
    assume "\<exists>candidate.
              contract_InitLargePreimage p uuid (OracleOffset data)
                (of_nat (length (OracleData data))) = Inr candidate
              \<and> txMgr_Send p 0 candidate = Inl err"
    then obtain candidate where
      "contract_InitLargePreimage p uuid (OracleOffset data)
         (of_nat (length (OracleData data))) = Inr candidate"
      "txMgr_Send p 0 candidate = Inl err"
      by auto
    then show ?thesis
      by (simp add: UploadPreimage_uuid [OF uuid leafs] initLargePreimage_def Let_def
          sendTxAndWait_def)
  qed
qed

theorem UploadPreimage_init_failure_witness:
  "newUUID (readerOf (bigEndian 17 1111)) = Some (Return (Inr 1111))
   \<and> contract_InitLargePreimage failingUploader 1111 0 272 = Inr 0
   \<and> txMgr_Send failingUploader 0 0 = Inl (External ''failed to broadcast'')
   \<and> (\<exists>e w. UploadPreimage failingUploader countingMatrix (readerOf (bigEndian 17 1111)) 0
               (NewPreimageOracleData [2] (fullBlock @ fullBlock) 0)
             = Some (Return (Some (ErrorfUUID
                 ''failed to initialize large preimage with uuid'' 1111 e)), w)
        \<and> (\<forall>u leaves finalize. CallAddLeaves u leaves finalize \<notin> set (events w))
        \<and> sends w \<le> 1)"
proof -
  let ?data = "NewPreimageOracleData [2] (fullBlock @ fullBlock) 0"
  have fail: "contract_InitLargePreimage failingUploader 1111 (OracleOffset ?data)
        (of_nat (length (OracleData ?data))) = Inl (External ''failed to broadcast'')
      \<or> (\<exists>candidate.
           contract_InitLargePreimage failingUploader 1111 (OracleOffset ?data)
             (of_nat (length (OracleData ?data))) = Inr candidate
           \<and> txMgr_Send failingUploader 0 candidate = Inl (External ''failed to broadcast''))"
    by (simp add: failingUploader_def)
  from UploadPreimage_init_failure [OF newUUID_1111 fail, of countingMatrix 0]
  have "\<exists>e w. UploadPreimage failingUploader countingMatrix (readerOf (bigEndian 17 1111)) 0 ?data
             = Some (Return (Some (ErrorfUUID
                 ''failed to initialize large preimage with uuid'' 1111 e)), w)
        \<and> (\<forall>u leaves finalize. CallAddLeaves u leaves finalize \<notin> set (events w))
        \<and> sends w \<le> 1"
    by blast
  then show ?thesis
    using newUUID_1111 by (simp add: failingUploader_def)
qed

text \<open>
  C10. Whatever the preimage, the entropy source, the contract binding and the transaction
  manager do, a call of \<^verbatim>\<open>UploadPreimage\<close> that returns does not panic and returns an
  error, never \<^verbatim>\<open>nil\<close>: \<^verbatim>\<open>errNotSupported\<close>, or the wrapped failure of the UUID
  generation, of the initialization or of the leaf transmission. By
  \<open>UploadPreimage_returns_iff\<close> the call returns whenever \<^verbatim>\<open>newUUID\<close> does.
\<close>

theorem UploadPreimage_never_nil:
  assumes "UploadPreimage p mx rd parent data = Some (out, w)"
  shows "\<exists>err. out = Return (Some err)
      \<and> (err = errNotSupported
         \<or> (\<exists>e. err = Errorf ''failed to generate UUID'' e)
         \<or> (\<exists>uuid e. err = ErrorfUUID ''failed to initialize large preimage with uuid'' uuid e)
         \<or> (\<exists>uuid e. err = ErrorfUUID ''failed to add leaves to large preimage with uuid'' uuid e))"
proof -
  obtain leafs where leafs: "buildLeafs mx data 0 (NewStateMatrix mx) [] = Return leafs"
    using buildLeafs_returns [of mx data 0 "NewStateMatrix mx" "[]"] by auto
  from assms have "newUUID rd \<noteq> None"
    using UploadPreimage_diverges [of rd p mx parent data] by auto
  then obtain res where res: "newUUID rd = Some (Return res)"
    using newUUID_no_panic [of rd] by (cases "newUUID rd") (auto intro: outcome.exhaust)
  show ?thesis
  proof (cases res)
    case (Inl e)
    with res assms show ?thesis
      by (auto simp add: UploadPreimage_uuid_error)
  next
    case (Inr uuid)
    with res leafs assms show ?thesis
      by (auto simp add: UploadPreimage_uuid split: prod.splits option.splits)
  qed
qed

theorem UploadPreimage_never_nil_witness:
  "UploadPreimage okUploader countingMatrix (readerOf []) 0
       (NewPreimageOracleData [2] (fullBlock @ fullBlock) 0)
     = Some (Return (Some (Errorf ''failed to generate UUID'' (io_EOF))),
             \<lparr>sends = 0, events = []\<rparr>)
   \<and> (\<exists>err. (Return (Some (Errorf ''failed to generate UUID'' (io_EOF)))
                :: error option outcome) = Return (Some err))"
proof -
  have h: "UploadPreimage okUploader countingMatrix (readerOf []) 0
       (NewPreimageOracleData [2] (fullBlock @ fullBlock) 0)
     = Some (Return (Some (Errorf ''failed to generate UUID'' (io_EOF))),
             \<lparr>sends = 0, events = []\<rparr>)"
    by (rule UploadPreimage_uuid_error [OF newUUID_readerOf_Nil])
  from UploadPreimage_never_nil [OF h] h show ?thesis
    by blast
qed

subsection \<open>Failures before and after the initialization\<close>

text \<open>
  When the entropy source fails, \<^verbatim>\<open>UploadPreimage\<close> returns the wrapped error "failed to
  generate UUID" before it calls the contract binding or the transaction manager.
\<close>

theorem UploadPreimage_uuid_failure:
  assumes "newUUID rd = Some (Return (Inl err))"
  shows "UploadPreimage p mx rd parent data =
       Some (Return (Some (Errorf ''failed to generate UUID'' err)), \<lparr>sends = 0, events = []\<rparr>)"
  using assms by (rule UploadPreimage_uuid_error)

theorem UploadPreimage_uuid_failure_witness:
  "newUUID (readerOf []) = Some (Return (Inl (io_EOF)))
   \<and> UploadPreimage okUploader countingMatrix (readerOf []) 0
        (NewPreimageOracleData [2] (fullBlock @ fullBlock) 0)
      = Some (Return (Some (Errorf ''failed to generate UUID'' (io_EOF))),
              \<lparr>sends = 0, events = []\<rparr>)"
  using newUUID_readerOf_Nil UploadPreimage_uuid_failure [OF newUUID_readerOf_Nil] by simp

text \<open>
  When the initialization succeeds and \<^verbatim>\<open>AddLeaves\<close> fails to build the leaf transactions,
  \<^verbatim>\<open>UploadPreimage\<close> returns the error "failed to add leaves to large preimage" that names
  the UUID of the upload and wraps the failure; \<^verbatim>\<open>AddLeaves\<close> was called with all the leaves
  and \<^verbatim>\<open>finalize = false\<close>, after the initialization, and no leaf transaction was sent.
\<close>

theorem UploadPreimage_add_leaves_failure:
  assumes leafs: "buildLeafs mx data 0 (NewStateMatrix mx) [] = Return leafs"
      and uuid: "newUUID rd = Some (Return (Inr uuid))"
      and init: "contract_InitLargePreimage p uuid (OracleOffset data)
                   (of_nat (length (OracleData data))) = Inr candidate"
      and send: "txMgr_Send p 0 candidate = Inr receipt"
      and add: "contract_AddLeaves p uuid leafs False = Inl err"
  shows "\<exists>line. UploadPreimage p mx rd parent data =
       Some (Return (Some (ErrorfUUID ''failed to add leaves to large preimage with uuid'' uuid
               (Errorf ''failed to create pre-image oracle tx'' err))),
             \<lparr>sends = 1,
              events = [CallInitLargePreimage uuid (OracleOffset data)
                          (of_nat (length (OracleData data))),
                        CallSend candidate, line,
                        CallAddLeaves uuid leafs False]\<rparr>)"
  using init send add
  by (simp add: UploadPreimage_uuid [OF uuid leafs] initLargePreimage_def sendTxAndWait_def
      addLargePreimageLeafs_def Let_def)

theorem UploadPreimage_add_leaves_failure_witness:
  "\<exists>leafs line.
      buildLeafs countingMatrix (NewPreimageOracleData [2] (fullBlock @ fullBlock) 0) 0
        (NewStateMatrix countingMatrix) [] = Return leafs
      \<and> UploadPreimage addLeavesFailingUploader countingMatrix (readerOf (bigEndian 17 1111)) 0
          (NewPreimageOracleData [2] (fullBlock @ fullBlock) 0) =
        Some (Return (Some (ErrorfUUID ''failed to add leaves to large preimage with uuid'' 1111
                (Errorf ''failed to create pre-image oracle tx'' (External ''failed to add leaves'')))),
              \<lparr>sends = 1,
               events = [CallInitLargePreimage 1111 0 272, CallSend 0, line,
                         CallAddLeaves 1111 leafs False]\<rparr>)"
proof -
  let ?data = "NewPreimageOracleData [2] (fullBlock @ fullBlock) 0"
  obtain leafs where leafs: "buildLeafs countingMatrix ?data 0 (NewStateMatrix countingMatrix) []
      = Return leafs"
    using buildLeafs_returns [of countingMatrix ?data 0 "NewStateMatrix countingMatrix" "[]"]
    by auto
  have init: "contract_InitLargePreimage addLeavesFailingUploader 1111 (OracleOffset ?data)
      (of_nat (length (OracleData ?data))) = Inr 0"
    by (simp add: addLeavesFailingUploader_def)
  have send: "txMgr_Send addLeavesFailingUploader 0 0
      = Inr \<lparr>Status = ReceiptStatusSuccessful, TxHash = 0\<rparr>"
    by (simp add: addLeavesFailingUploader_def)
  have add: "contract_AddLeaves addLeavesFailingUploader 1111 leafs False
      = Inl (External ''failed to add leaves'')"
    by (simp add: addLeavesFailingUploader_def)
  from UploadPreimage_add_leaves_failure [OF leafs newUUID_1111 init send add, of 0] leafs
  show ?thesis
    by (simp add: NewPreimageOracleData_def fullBlock_def)
qed

end
